theory Spec2Isabelle
  imports Main "HOL-Library.Word" "HOL-Library.Sublist"
begin

section \<open>The storage adapter \<open>gcs_service.py\<close>\<close>

text \<open>
  The module keeps two module-level handles (\<open>_storage_client\<close>, \<open>_bucket\<close>), reads two
  settings from the environment when it is imported, and offers \<open>init_gcs_client\<close>,
  \<open>upload_hero_image\<close>, \<open>delete_hero_image\<close> and \<open>get_public_url\<close>. Everything else is
  the storage SDK, which is not part of the repository: its calls are modelled as an
  environment that either raises or returns, and every call made to it is recorded.
\<close>

subsection \<open>Values\<close>

type_synonym bytes = "8 word list"

text \<open>
  Python's \<open>str\<close> is modelled as \<open>string\<close>. What a call can raise is an instance of
  \<open>BaseException\<close>: the SDK's \<open>NotFound\<close> (or a subclass of it), any other instance of
  \<open>Exception\<close>, or an exception outside the \<open>Exception\<close> hierarchy (\<open>KeyboardInterrupt\<close>,
  \<open>SystemExit\<close>, \<open>GeneratorExit\<close>), which can arrive while an SDK call is running. Each
  carries the text that \<open>str(e)\<close> yields. \<open>is_NotFound\<close> and \<open>is_Exception\<close> are the tests
  that \<open>except NotFound\<close> and \<open>except Exception\<close> make.
\<close>

datatype exn = NotFound string | OtherException string | NonException string

fun str_exn :: "exn \<Rightarrow> string" where
  "str_exn (NotFound m) = m"
| "str_exn (OtherException m) = m"
| "str_exn (NonException m) = m"

fun is_NotFound :: "exn \<Rightarrow> bool" where
  "is_NotFound (NotFound m) = True"
| "is_NotFound (OtherException m) = False"
| "is_NotFound (NonException m) = False"

fun is_Exception :: "exn \<Rightarrow> bool" where
  "is_Exception (NotFound m) = True"
| "is_Exception (OtherException m) = True"
| "is_Exception (NonException m) = False"

text \<open>
  The SDK's handles, as the arguments they were built from: \<open>storage.Client(project=p)\<close>,
  \<open>client.bucket(name)\<close>, \<open>bucket.blob(name)\<close>.
\<close>

datatype client = Client (client_project: "string option")

datatype bucket = Bucket (bucket_client: client) (bucket_name: string)

datatype blob = Blob (blob_bucket: bucket) (blob_name: string)

text \<open>The calls into the SDK that an operation can make, recorded in the order made.\<close>

datatype sdk_call =
    Call_Client "string option"
  | Call_bucket client string
  | Call_exists bucket
  | Call_blob bucket string
  | Call_upload_from_string blob bytes string
  | Call_delete blob

datatype level = INFO | WARNING | ERROR

text \<open>
  The environment of one operation: for each SDK call whether it raises (and for
  \<open>exists\<close> what it answers), and what \<open>uuid.uuid4()\<close> produces, as the 128-bit integer
  of the UUID.
\<close>

record provider =
  Client_raises :: "string option \<Rightarrow> exn option"
  bucket_raises :: "client \<Rightarrow> string \<Rightarrow> exn option"
  exists_result :: "bucket \<Rightarrow> exn + bool"
  blob_raises :: "bucket \<Rightarrow> string \<Rightarrow> exn option"
  upload_from_string_raises :: "blob \<Rightarrow> bytes \<Rightarrow> string \<Rightarrow> exn option"
  delete_raises :: "blob \<Rightarrow> exn option"
  uuid4_result :: "exn + 128 word"

text \<open>
  The settings read by \<open>os.getenv\<close> at import (lines 16-17); the default of both is the
  empty string.
\<close>

record config =
  GCS_BUCKET_NAME :: string
  GCS_PROJECT_ID :: string

definition HERO_IMAGES_FOLDER :: string where
  "HERO_IMAGES_FOLDER = ''hero_images''"

text \<open>
  The state of the process as far as the module touches it: the two module-level
  variables (lines 21-22), the SDK calls made so far and the log lines written so far.
\<close>

record world =
  storage_client :: "client option"
  bucket :: "bucket option"
  sdk_calls :: "sdk_call list"
  log_lines :: "(level \<times> string) list"

definition initial_world :: world where
  "initial_world = \<lparr>storage_client = None, bucket = None, sdk_calls = [], log_lines = []\<rparr>"

subsection \<open>Statements that may raise\<close>

text \<open>
  A Python block is a function from the world to an outcome and the world it leaves:
  \<open>Inl e\<close> when the exception \<open>e\<close> leaves the block, \<open>Inr v\<close> when it completes with \<open>v\<close>.
\<close>

type_synonym 'a py = "world \<Rightarrow> (exn + 'a) \<times> world"

definition py_return :: "'a \<Rightarrow> 'a py" where
  "py_return v = (\<lambda>w. (Inr v, w))"

definition py_raise :: "exn \<Rightarrow> 'a py" where
  "py_raise e = (\<lambda>w. (Inl e, w))"

definition py_bind :: "'a py \<Rightarrow> ('a \<Rightarrow> 'b py) \<Rightarrow> 'b py" where
  "py_bind m f = (\<lambda>w. case m w of (Inl e, w') \<Rightarrow> (Inl e, w') | (Inr v, w') \<Rightarrow> f v w')"

text \<open>
  \<open>try: body except C1: h1 except C2 as e: h2\<close>: the first clause whose class matches the
  exception handles it, in the world the body left; an exception no clause matches
  leaves the statement.
\<close>

fun select_handler :: "((exn \<Rightarrow> bool) \<times> (exn \<Rightarrow> 'a py)) list \<Rightarrow> exn \<Rightarrow> 'a py" where
  "select_handler [] e = py_raise e"
| "select_handler ((matches, handler) # hs) e =
     (if matches e then handler e else select_handler hs e)"

definition try_except :: "'a py \<Rightarrow> ((exn \<Rightarrow> bool) \<times> (exn \<Rightarrow> 'a py)) list \<Rightarrow> 'a py" where
  "try_except body hs =
     (\<lambda>w. case body w of (Inl e, w') \<Rightarrow> select_handler hs e w' | (Inr v, w') \<Rightarrow> (Inr v, w'))"

definition logger :: "level \<Rightarrow> string \<Rightarrow> unit py" where
  "logger lv msg = (\<lambda>w. (Inr (), w\<lparr>log_lines := log_lines w @ [(lv, msg)]\<rparr>))"

definition record_call :: "sdk_call \<Rightarrow> unit py" where
  "record_call c = (\<lambda>w. (Inr (), w\<lparr>sdk_calls := sdk_calls w @ [c]\<rparr>))"

definition read_global :: "(world \<Rightarrow> 'a) \<Rightarrow> 'a py" where
  "read_global var = (\<lambda>w. (Inr (var w), w))"

definition assign_storage_client :: "client option \<Rightarrow> unit py" where
  "assign_storage_client v = (\<lambda>w. (Inr (), w\<lparr>storage_client := v\<rparr>))"

definition assign_bucket :: "bucket option \<Rightarrow> unit py" where
  "assign_bucket v = (\<lambda>w. (Inr (), w\<lparr>bucket := v\<rparr>))"

definition raise_or :: "exn option \<Rightarrow> 'a \<Rightarrow> 'a py" where
  "raise_or r v = (case r of Some e \<Rightarrow> py_raise e | None \<Rightarrow> py_return v)"

subsection \<open>The SDK calls\<close>

definition sdk_Client :: "provider \<Rightarrow> string option \<Rightarrow> client py" where
  "sdk_Client P project =
     py_bind (record_call (Call_Client project))
       (\<lambda>_. raise_or (Client_raises P project) (Client project))"

definition sdk_bucket :: "provider \<Rightarrow> client \<Rightarrow> string \<Rightarrow> bucket py" where
  "sdk_bucket P c name =
     py_bind (record_call (Call_bucket c name))
       (\<lambda>_. raise_or (bucket_raises P c name) (Bucket c name))"

definition sdk_exists :: "provider \<Rightarrow> bucket \<Rightarrow> bool py" where
  "sdk_exists P b =
     py_bind (record_call (Call_exists b))
       (\<lambda>_. case exists_result P b of Inl e \<Rightarrow> py_raise e | Inr v \<Rightarrow> py_return v)"

definition sdk_blob :: "provider \<Rightarrow> bucket \<Rightarrow> string \<Rightarrow> blob py" where
  "sdk_blob P b name =
     py_bind (record_call (Call_blob b name))
       (\<lambda>_. raise_or (blob_raises P b name) (Blob b name))"

definition sdk_upload_from_string :: "provider \<Rightarrow> blob \<Rightarrow> bytes \<Rightarrow> string \<Rightarrow> unit py" where
  "sdk_upload_from_string P bl file_data content_type =
     py_bind (record_call (Call_upload_from_string bl file_data content_type))
       (\<lambda>_. raise_or (upload_from_string_raises P bl file_data content_type) ())"

definition sdk_delete :: "provider \<Rightarrow> blob \<Rightarrow> unit py" where
  "sdk_delete P bl =
     py_bind (record_call (Call_delete bl))
       (\<lambda>_. raise_or (delete_raises P bl) ())"

text \<open>
  Modelled from the spec: the SDK's property \<open>Blob.public_url\<close>, read at line 102, is
  not under src/. The spec (sections 4.1 and 6) gives it as the provider's public URL
  pattern \<open>https://storage.googleapis.com/{bucketName}/{objectName}\<close>, formatted with the
  name of the blob's bucket and the name of the blob; it makes no call to the provider.
\<close>

definition public_url :: "blob \<Rightarrow> string" where
  "public_url bl =
     ''https://storage.googleapis.com/'' @ bucket_name (blob_bucket bl) @ ''/'' @ blob_name bl"

definition uuid4 :: "provider \<Rightarrow> (128 word) py" where
  "uuid4 P = (case uuid4_result P of Inl e \<Rightarrow> py_raise e | Inr u \<Rightarrow> py_return u)"

subsection \<open>Library functions on strings\<close>

text \<open>
  \<open>UUID.hex\<close> is \<open>'%032x' % self.int\<close>: the 32 hexadecimal digits of the 128-bit value,
  most significant first, in lower case. \<open>hex_digits k v\<close> is the \<open>k\<close> low-order digits of
  \<open>v\<close>; a 128-bit value has no more than 32.
\<close>

definition hexdigit :: "nat \<Rightarrow> char" where
  "hexdigit n = ''0123456789abcdef'' ! (n mod 16)"

fun hex_digits :: "nat \<Rightarrow> nat \<Rightarrow> string" where
  "hex_digits 0 v = []"
| "hex_digits (Suc k) v = hex_digits k (v div 16) @ [hexdigit v]"

definition hex :: "128 word \<Rightarrow> string" where
  "hex u = hex_digits 32 (unat u)"

text \<open>
  \<open>str.lower\<close> on the letters A-Z. A character outside ASCII is left as it is: Python
  maps no such character to one of the letters of the four allowed extensions, so
  the test at line 88 and the generated name are the same.
\<close>

definition lower_char :: "char \<Rightarrow> char" where
  "lower_char c =
     (let n = (of_char c :: nat) in if 65 \<le> n \<and> n \<le> 90 then char_of (n + 32) else c)"

definition lower :: "string \<Rightarrow> string" where
  "lower s = map lower_char s"

text \<open>\<open>str.rfind\<close> for a single character: the highest index holding it, or \<open>-1\<close>.\<close>

fun rfind_from :: "char \<Rightarrow> string \<Rightarrow> int \<Rightarrow> int \<Rightarrow> int" where
  "rfind_from c [] i found = found"
| "rfind_from c (x # xs) i found = rfind_from c xs (i + 1) (if x = c then i else found)"

definition rfind :: "string \<Rightarrow> char \<Rightarrow> int" where
  "rfind p c = rfind_from c p 0 (- 1)"

text \<open>
  \<open>os.path.splitext\<close> on a POSIX system (the module runs on Cloud Run): the generic
  \<open>_splitext(p, sep='/', altsep=None, extsep='.')\<close>. The loop skips the dots that lead
  the last path component and returns from inside as soon as it meets another character.
\<close>

function splitext_loop :: "string \<Rightarrow> int \<Rightarrow> int \<Rightarrow> (string \<times> string) option" where
  "splitext_loop p filenameIndex dotIndex =
     (if filenameIndex < dotIndex then
        (if take 1 (drop (nat filenameIndex) p) \<noteq> ''.''
         then Some (take (nat dotIndex) p, drop (nat dotIndex) p)
         else splitext_loop p (filenameIndex + 1) dotIndex)
      else None)"
  by pat_completeness auto
termination
  by (relation "measure (\<lambda>(p, i, d). nat (d - i))") auto

definition splitext :: "string \<Rightarrow> string \<times> string" where
  "splitext p =
     (let sepIndex = rfind p (CHR ''/'');
          dotIndex = rfind p (CHR ''.'')
      in if dotIndex > sepIndex then
           (case splitext_loop p (sepIndex + 1) dotIndex of
              Some r \<Rightarrow> r
            | None \<Rightarrow> (p, []))
         else (p, []))"

subsection \<open>The operations\<close>

text \<open>
  Each function follows its source statement by statement. \<open>not GCS_BUCKET_NAME\<close> holds
  exactly for the empty string, and \<open>not _bucket\<close> exactly for \<open>None\<close>: a \<open>Bucket\<close> object
  defines neither \<open>__bool__\<close> nor \<open>__len__\<close>. A \<open>return\<close> inside \<open>try\<close> is the value of the
  block. The default \<open>content_type="image/jpeg"\<close> of \<open>upload_hero_image\<close> is the caller's
  to supply here.
\<close>

definition init_gcs_client :: "config \<Rightarrow> provider \<Rightarrow> bool py" where
  "init_gcs_client cfg P =
     (if GCS_BUCKET_NAME cfg = [] then
        py_bind (logger WARNING ''GCS_BUCKET_NAME not set, GCS service not available'')
          (\<lambda>_. py_return False)
      else
        try_except
          (py_bind (sdk_Client P
                      (if GCS_PROJECT_ID cfg \<noteq> [] then Some (GCS_PROJECT_ID cfg) else None))
             (\<lambda>c. py_bind (assign_storage_client (Some c))
             (\<lambda>_. py_bind (sdk_bucket P c (GCS_BUCKET_NAME cfg))
             (\<lambda>b. py_bind (assign_bucket (Some b))
             (\<lambda>_. py_bind (sdk_exists P b)
             (\<lambda>ex.
                if \<not> ex then
                  py_bind (logger ERROR
                             (''GCS bucket '' @ [CHR 0x27] @ GCS_BUCKET_NAME cfg @ [CHR 0x27]
                                @ '' does not exist''))
                    (\<lambda>_. py_return False)
                else
                  py_bind (logger INFO
                             (''GCS client initialized successfully for bucket: ''
                                @ GCS_BUCKET_NAME cfg))
                    (\<lambda>_. py_return True)))))))
          [(is_Exception,
            \<lambda>e. py_bind (logger ERROR (''Failed to initialize GCS client: '' @ str_exn e))
                   (\<lambda>_. py_return False))])"

definition get_gcs_client :: "(client option) py" where
  "get_gcs_client = read_global storage_client"

definition get_bucket :: "(bucket option) py" where
  "get_bucket = read_global bucket"

definition upload_hero_image ::
  "provider \<Rightarrow> bytes \<Rightarrow> string \<Rightarrow> string \<Rightarrow> (bool \<times> string \<times> string) py" where
  "upload_hero_image P file_data filename content_type =
     py_bind (read_global bucket)
       (\<lambda>bo. case bo of
          None \<Rightarrow>
            py_bind (logger ERROR ''GCS bucket not initialized'')
              (\<lambda>_. py_return (False, [], []))
        | Some b \<Rightarrow>
            try_except
              (let ext = lower (snd (splitext filename));
                   ext = (if ext \<notin> set [''.jpg'', ''.jpeg'', ''.png'', ''.webp'']
                          then ''.jpg'' else ext)
               in py_bind (uuid4 P)
                    (\<lambda>u. let unique_name = hex u @ ext;
                             object_name = HERO_IMAGES_FOLDER @ ''/'' @ unique_name
                         in py_bind (sdk_blob P b object_name)
                    (\<lambda>bl. py_bind (sdk_upload_from_string P bl file_data content_type)
                    (\<lambda>_. let url = public_url bl
                         in py_bind (logger INFO (''Uploaded hero image: '' @ object_name))
                    (\<lambda>_. py_return (True, object_name, url))))))
              [(is_Exception,
                \<lambda>e. py_bind (logger ERROR (''Failed to upload hero image: '' @ str_exn e))
                       (\<lambda>_. py_return (False, [], [])))])"

definition delete_hero_image :: "provider \<Rightarrow> string \<Rightarrow> bool py" where
  "delete_hero_image P object_name =
     py_bind (read_global bucket)
       (\<lambda>bo. case bo of
          None \<Rightarrow>
            py_bind (logger ERROR ''GCS bucket not initialized'')
              (\<lambda>_. py_return False)
        | Some b \<Rightarrow>
            try_except
              (py_bind (sdk_blob P b object_name)
                 (\<lambda>bl. py_bind (sdk_delete P bl)
                 (\<lambda>_. py_bind (logger INFO (''Deleted hero image: '' @ object_name))
                 (\<lambda>_. py_return True))))
              [(is_NotFound,
                \<lambda>e. py_bind (logger WARNING (''Hero image not found in GCS: '' @ object_name))
                       (\<lambda>_. py_return True)),
               (is_Exception,
                \<lambda>e. py_bind (logger ERROR (''Failed to delete hero image: '' @ str_exn e))
                       (\<lambda>_. py_return False))])"

definition get_public_url :: "config \<Rightarrow> string \<Rightarrow> string py" where
  "get_public_url cfg object_name =
     py_return (''https://storage.googleapis.com/'' @ GCS_BUCKET_NAME cfg @ ''/'' @ object_name)"

subsection \<open>The vocabulary of the specification\<close>

text \<open>
  The allow-list of extensions and the naming convention
  \<open>hero_images/{32-hex-char-random-token}{extension}\<close>, as the specification words them;
  they are compared below with what \<open>upload_hero_image\<close> computes.
\<close>

definition allowed_extensions :: "string list" where
  "allowed_extensions = [''.jpg'', ''.jpeg'', ''.png'', ''.webp'']"

text \<open>Two strings compared case-insensitively.\<close>

definition same_ignoring_case :: "string \<Rightarrow> string \<Rightarrow> bool" where
  "same_ignoring_case a b = (lower a = lower b)"

definition is_hex_char :: "char \<Rightarrow> bool" where
  "is_hex_char c = (c \<in> set ''0123456789abcdef'')"

definition matches_naming_convention :: "string \<Rightarrow> bool" where
  "matches_naming_convention n =
     (take 12 n = ''hero_images/'' \<and> length (take 32 (drop 12 n)) = 32 \<and>
      list_all is_hex_char (take 32 (drop 12 n)) \<and> drop 44 n \<in> set allowed_extensions)"

definition normalized_extension :: "string \<Rightarrow> string" where
  "normalized_extension filename =
     (if lower (snd (splitext filename)) \<in> set allowed_extensions
      then lower (snd (splitext filename)) else ''.jpg'')"

definition object_name_for :: "string \<Rightarrow> 128 word \<Rightarrow> string" where
  "object_name_for filename u = ''hero_images/'' @ hex u @ normalized_extension filename"

text \<open>
  The worlds the module can be in: it starts with both handles unset, and only its own
  functions run on it, each with any behaviour of the SDK.
\<close>

inductive reachable :: "config \<Rightarrow> world \<Rightarrow> bool" for cfg :: config where
  reachable_start: "reachable cfg initial_world"
| reachable_init: "reachable cfg w \<Longrightarrow> reachable cfg (snd (init_gcs_client cfg P w))"
| reachable_upload:
    "reachable cfg w \<Longrightarrow> reachable cfg (snd (upload_hero_image P file_data filename content_type w))"
| reachable_delete: "reachable cfg w \<Longrightarrow> reachable cfg (snd (delete_hero_image P object_name w))"
| reachable_url: "reachable cfg w \<Longrightarrow> reachable cfg (snd (get_public_url cfg object_name w))"

subsection \<open>Example inputs\<close>

definition example_config :: config where
  "example_config = \<lparr>GCS_BUCKET_NAME = ''my-bucket'', GCS_PROJECT_ID = []\<rparr>"

definition unconfigured :: config where
  "unconfigured = \<lparr>GCS_BUCKET_NAME = [], GCS_PROJECT_ID = []\<rparr>"

definition example_bucket :: bucket where
  "example_bucket = Bucket (Client None) ''my-bucket''"

definition quiet_provider :: provider where
  "quiet_provider =
     \<lparr>Client_raises = (\<lambda>_. None), bucket_raises = (\<lambda>_ _. None),
      exists_result = (\<lambda>_. Inr True), blob_raises = (\<lambda>_ _. None),
      upload_from_string_raises = (\<lambda>_ _ _. None), delete_raises = (\<lambda>_. None),
      uuid4_result = Inr 0x3f2b8e1c9a4d4c7ea1b25d6f7e8091a2\<rparr>"

definition absent_bucket_provider :: provider where
  "absent_bucket_provider = quiet_provider\<lparr>exists_result := (\<lambda>_. Inr False)\<rparr>"

definition not_found_provider :: provider where
  "not_found_provider = quiet_provider\<lparr>delete_raises := (\<lambda>_. Some (NotFound ''404 No such object''))\<rparr>"

definition failing_provider :: provider where
  "failing_provider =
     \<lparr>Client_raises = (\<lambda>_. Some (OtherException ''no credentials'')),
      bucket_raises = (\<lambda>_ _. None),
      exists_result = (\<lambda>_. Inl (OtherException ''503'')),
      blob_raises = (\<lambda>_ _. None),
      upload_from_string_raises = (\<lambda>_ _ _. Some (OtherException ''503'')),
      delete_raises = (\<lambda>_. Some (OtherException ''403 Forbidden'')),
      uuid4_result = Inr 0x3f2b8e1c9a4d4c7ea1b25d6f7e8091a2\<rparr>"

definition interrupted_provider :: provider where
  "interrupted_provider =
     \<lparr>Client_raises = (\<lambda>_. Some (NonException ''KeyboardInterrupt'')),
      bucket_raises = (\<lambda>_ _. None),
      exists_result = (\<lambda>_. Inr True),
      blob_raises = (\<lambda>_ _. None),
      upload_from_string_raises = (\<lambda>_ _ _. Some (NonException ''KeyboardInterrupt'')),
      delete_raises = (\<lambda>_. Some (NonException ''KeyboardInterrupt'')),
      uuid4_result = Inr 0x3f2b8e1c9a4d4c7ea1b25d6f7e8091a2\<rparr>"

definition ready_world :: world where
  "ready_world = snd (init_gcs_client example_config quiet_provider initial_world)"

section \<open>Properties\<close>

subsection \<open>Unfolding the operations\<close>

lemmas py_defs = py_return_def py_raise_def py_bind_def try_except_def logger_def
  record_call_def read_global_def assign_storage_client_def assign_bucket_def raise_or_def

lemmas sdk_defs = sdk_Client_def sdk_bucket_def sdk_exists_def sdk_blob_def
  sdk_upload_from_string_def sdk_delete_def uuid4_def

lemma length_hex_digits: "length (hex_digits k v) = k"
  by (induction k arbitrary: v) simp_all

lemma length_hex: "length (hex u) = 32"
  by (simp add: hex_def length_hex_digits)

lemma hexdigit_is_hex_char: "is_hex_char (hexdigit n)"
proof -
  have "n mod 16 < length ''0123456789abcdef''" by simp
  then have "''0123456789abcdef'' ! (n mod 16) \<in> set ''0123456789abcdef''"
    by (rule nth_mem)
  then show ?thesis by (simp only: is_hex_char_def hexdigit_def)
qed

lemma hex_digits_all_hex_chars: "list_all is_hex_char (hex_digits k v)"
  by (induction k arbitrary: v) (simp_all add: hexdigit_is_hex_char)

lemma hex_all_hex_chars: "list_all is_hex_char (hex u)"
  by (simp add: hex_def hex_digits_all_hex_chars)

lemma hex_digits_numeral:
  "hex_digits (numeral k) v = hex_digits (pred_numeral k) (v div 16) @ [hexdigit v]"
  by (simp only: numeral_eq_Suc [of k] hex_digits.simps)

lemma convention_of_parts:
  assumes "e \<in> set allowed_extensions"
  shows "matches_naming_convention (''hero_images/'' @ hex u @ e)"
proof -
  have t: "take 12 (''hero_images/'' @ hex u @ e) = ''hero_images/''" by simp
  have d: "drop 12 (''hero_images/'' @ hex u @ e) = hex u @ e" by simp
  have d2: "drop 44 (''hero_images/'' @ hex u @ e) = e"
    using length_hex [of u] by simp
  show ?thesis
    unfolding matches_naming_convention_def d d2 t
    using assms by (simp add: length_hex hex_all_hex_chars)
qed

lemma lower_allowed_extensions:
  "lower ''.jpg'' = ''.jpg''" "lower ''.jpeg'' = ''.jpeg''"
  "lower ''.png'' = ''.png''" "lower ''.webp'' = ''.webp''"
  by code_simp+

lemma allowed_ignoring_case:
  "(\<exists>a \<in> set allowed_extensions. same_ignoring_case e a) \<longleftrightarrow>
   lower e \<in> set allowed_extensions"
  by (simp add: allowed_extensions_def same_ignoring_case_def lower_allowed_extensions)

lemma ext_choice:
  "(if lower (snd (splitext filename)) \<notin> set [''.jpg'', ''.jpeg'', ''.png'', ''.webp'']
    then ''.jpg'' else lower (snd (splitext filename))) = normalized_extension filename"
  by (simp add: normalized_extension_def allowed_extensions_def)

lemma normalized_extension_allowed: "normalized_extension filename \<in> set allowed_extensions"
  by (simp add: normalized_extension_def allowed_extensions_def)

lemma object_name_for_convention: "matches_naming_convention (object_name_for filename u)"
  unfolding object_name_for_def
  by (rule convention_of_parts) (rule normalized_extension_allowed)

lemma init_run:
  assumes "GCS_BUCKET_NAME cfg \<noteq> []"
  shows "init_gcs_client cfg P w =
    (let name = GCS_BUCKET_NAME cfg;
         project = (if GCS_PROJECT_ID cfg \<noteq> [] then Some (GCS_PROJECT_ID cfg) else None);
         c = Client project;
         b = Bucket c name;
         handled = (\<lambda>e w'.
           if is_Exception e
           then (Inr False,
                 w'\<lparr>log_lines := log_lines w' @
                      [(ERROR, ''Failed to initialize GCS client: '' @ str_exn e)]\<rparr>)
           else (Inl e, w'))
     in case Client_raises P project of
          Some e \<Rightarrow> handled e (w\<lparr>sdk_calls := sdk_calls w @ [Call_Client project]\<rparr>)
        | None \<Rightarrow>
            (case bucket_raises P c name of
               Some e \<Rightarrow>
                 handled e
                   (w\<lparr>storage_client := Some c,
                      sdk_calls := sdk_calls w @ [Call_Client project, Call_bucket c name]\<rparr>)
             | None \<Rightarrow>
                 (case exists_result P b of
                    Inl e \<Rightarrow>
                      handled e
                        (w\<lparr>storage_client := Some c, bucket := Some b,
                           sdk_calls := sdk_calls w @
                             [Call_Client project, Call_bucket c name, Call_exists b]\<rparr>)
                  | Inr ex \<Rightarrow>
                      (Inr ex,
                       w\<lparr>storage_client := Some c, bucket := Some b,
                         sdk_calls := sdk_calls w @
                           [Call_Client project, Call_bucket c name, Call_exists b],
                         log_lines := log_lines w @
                           [if ex
                            then (INFO, ''GCS client initialized successfully for bucket: '' @ name)
                            else (ERROR, ''GCS bucket '' @ [CHR 0x27] @ name @ [CHR 0x27]
                                           @ '' does not exist'')]\<rparr>))))"
  unfolding init_gcs_client_def
  using assms
  by (simp add: py_defs sdk_defs Let_def split: option.splits sum.splits)

lemma upload_run:
  assumes "bucket w = Some b" and "uuid4_result P = Inr u"
  shows "upload_hero_image P file_data filename content_type w =
    (let n = object_name_for filename u;
         bl = Blob b n;
         handled = (\<lambda>e w'.
           if is_Exception e
           then (Inr (False, [], []),
                 w'\<lparr>log_lines := log_lines w' @
                      [(ERROR, ''Failed to upload hero image: '' @ str_exn e)]\<rparr>)
           else (Inl e, w'))
     in case blob_raises P b n of
          Some e \<Rightarrow> handled e (w\<lparr>sdk_calls := sdk_calls w @ [Call_blob b n]\<rparr>)
        | None \<Rightarrow>
            (case upload_from_string_raises P bl file_data content_type of
               Some e \<Rightarrow>
                 handled e
                   (w\<lparr>sdk_calls := sdk_calls w @
                        [Call_blob b n, Call_upload_from_string bl file_data content_type]\<rparr>)
             | None \<Rightarrow>
                 (Inr (True, n, public_url bl),
                  w\<lparr>sdk_calls := sdk_calls w @
                       [Call_blob b n, Call_upload_from_string bl file_data content_type],
                    log_lines := log_lines w @ [(INFO, ''Uploaded hero image: '' @ n)]\<rparr>)))"
  unfolding upload_hero_image_def Let_def ext_choice
  using assms
  by (simp add: py_defs sdk_defs HERO_IMAGES_FOLDER_def object_name_for_def
      split: option.splits)

lemma upload_run_uuid_raises:
  assumes "bucket w = Some b" and "uuid4_result P = Inl e"
  shows "upload_hero_image P file_data filename content_type w =
    (if is_Exception e
     then (Inr (False, [], []),
           w\<lparr>log_lines := log_lines w @
                [(ERROR, ''Failed to upload hero image: '' @ str_exn e)]\<rparr>)
     else (Inl e, w))"
  unfolding upload_hero_image_def Let_def ext_choice
  using assms by (simp add: py_defs sdk_defs)

lemma delete_run:
  assumes "bucket w = Some b"
  shows "delete_hero_image P object_name w =
    (let bl = Blob b object_name;
         handled = (\<lambda>e w'.
           if is_NotFound e
           then (Inr True,
                 w'\<lparr>log_lines := log_lines w' @
                      [(WARNING, ''Hero image not found in GCS: '' @ object_name)]\<rparr>)
           else if is_Exception e
           then (Inr False,
                 w'\<lparr>log_lines := log_lines w' @
                      [(ERROR, ''Failed to delete hero image: '' @ str_exn e)]\<rparr>)
           else (Inl e, w'))
     in case blob_raises P b object_name of
          Some e \<Rightarrow> handled e (w\<lparr>sdk_calls := sdk_calls w @ [Call_blob b object_name]\<rparr>)
        | None \<Rightarrow>
            (case delete_raises P bl of
               Some e \<Rightarrow>
                 handled e
                   (w\<lparr>sdk_calls := sdk_calls w @ [Call_blob b object_name, Call_delete bl]\<rparr>)
             | None \<Rightarrow>
                 (Inr True,
                  w\<lparr>sdk_calls := sdk_calls w @ [Call_blob b object_name, Call_delete bl],
                    log_lines := log_lines w @
                      [(INFO, ''Deleted hero image: '' @ object_name)]\<rparr>)))"
  unfolding delete_hero_image_def
  using assms
  by (simp add: py_defs sdk_defs Let_def split: option.splits)

lemma upload_frame:
  "storage_client (snd (upload_hero_image P file_data filename content_type w)) = storage_client w \<and>
   bucket (snd (upload_hero_image P file_data filename content_type w)) = bucket w"
  by (simp add: upload_hero_image_def py_defs sdk_defs Let_def
      split: option.splits sum.splits prod.splits exn.splits)

lemma delete_frame:
  "storage_client (snd (delete_hero_image P object_name w)) = storage_client w \<and>
   bucket (snd (delete_hero_image P object_name w)) = bucket w"
  by (simp add: delete_hero_image_def py_defs sdk_defs
      split: option.splits sum.splits prod.splits exn.splits)

lemma init_bucket_cases:
  "bucket (snd (init_gcs_client cfg P w)) = bucket w \<or>
   (\<exists>c. bucket (snd (init_gcs_client cfg P w)) = Some (Bucket c (GCS_BUCKET_NAME cfg)))"
  by (simp add: init_gcs_client_def py_defs sdk_defs
      split: option.splits sum.splits prod.splits exn.splits)

lemma reachable_bucket_name:
  "reachable cfg w \<Longrightarrow> bucket w = Some b \<Longrightarrow> bucket_name b = GCS_BUCKET_NAME cfg"
proof (induction arbitrary: b rule: reachable.induct)
  case reachable_start
  then show ?case by (simp add: initial_world_def)
next
  case (reachable_init w P)
  then show ?case using init_bucket_cases [of cfg P w] by auto
next
  case (reachable_upload w P file_data filename content_type)
  then show ?case using upload_frame [of P file_data filename content_type w] by simp
next
  case (reachable_delete w P object_name)
  then show ?case using delete_frame [of P object_name w] by simp
next
  case (reachable_url w object_name)
  then show ?case by (simp add: get_public_url_def py_defs)
qed

lemma ex_Inr_iff: "(\<exists>r. x = Inr r) \<longleftrightarrow> \<not> isl x"
  by (cases x) auto

subsection \<open>Facts about the example inputs\<close>

lemma example_config_named: "GCS_BUCKET_NAME example_config \<noteq> []"
  by (simp add: example_config_def)

lemma ready_world_bucket: "bucket ready_world = Some example_bucket"
  unfolding ready_world_def init_run [OF example_config_named]
  by (simp add: example_config_def quiet_provider_def example_bucket_def Let_def)

lemma ready_world_reachable: "reachable example_config ready_world"
  unfolding ready_world_def by (rule reachable_init [OF reachable_start])

lemma example_token:
  "hex 0x3f2b8e1c9a4d4c7ea1b25d6f7e8091a2 = ''3f2b8e1c9a4d4c7ea1b25d6f7e8091a2''"
  by (simp add: hex_def hex_digits_numeral hexdigit_def)

lemma example_extension: "lower (snd (splitext ''Photo.PNG'')) = ''.png''"
  by code_simp

lemma splitext_examples:
  "splitext ''Photo.PNG'' = (''Photo'', ''.PNG'')"
  "splitext ''archive.tar.gz'' = (''archive.tar'', ''.gz'')"
  "splitext ''.bashrc'' = (''.bashrc'', [])"
  "splitext ''dir.d/readme'' = (''dir.d/readme'', [])"
  "splitext ''dir/..png'' = (''dir/..png'', [])"
  by code_simp+

subsection \<open>The value returned, by the first exception raised\<close>

lemma init_result:
  assumes "GCS_BUCKET_NAME cfg \<noteq> []"
  shows "fst (init_gcs_client cfg P w) =
    (case (case Client_raises P
                  (if GCS_PROJECT_ID cfg \<noteq> [] then Some (GCS_PROJECT_ID cfg) else None) of
             Some e \<Rightarrow> Some e
           | None \<Rightarrow>
               (case bucket_raises P
                       (Client (if GCS_PROJECT_ID cfg \<noteq> [] then Some (GCS_PROJECT_ID cfg)
                                else None))
                       (GCS_BUCKET_NAME cfg) of
                  Some e \<Rightarrow> Some e
                | None \<Rightarrow>
                    (case exists_result P
                            (Bucket (Client (if GCS_PROJECT_ID cfg \<noteq> []
                                             then Some (GCS_PROJECT_ID cfg) else None))
                               (GCS_BUCKET_NAME cfg)) of
                       Inl e \<Rightarrow> Some e
                     | Inr ex \<Rightarrow> None))) of
       Some e \<Rightarrow> if is_Exception e then Inr False else Inl e
     | None \<Rightarrow>
         Inr (exists_result P
                (Bucket (Client (if GCS_PROJECT_ID cfg \<noteq> []
                                 then Some (GCS_PROJECT_ID cfg) else None))
                   (GCS_BUCKET_NAME cfg)) = Inr True))"
proof -
  define project where
    "project = (if GCS_PROJECT_ID cfg \<noteq> [] then Some (GCS_PROJECT_ID cfg) else None)"
  define c where "c = Client project"
  define b where "b = Bucket c (GCS_BUCKET_NAME cfg)"
  note run = init_run [OF assms, of P w, unfolded Let_def, folded project_def,
      folded c_def, folded b_def]
  have "fst (init_gcs_client cfg P w) =
    (case (case Client_raises P project of
             Some e \<Rightarrow> Some e
           | None \<Rightarrow>
               (case bucket_raises P c (GCS_BUCKET_NAME cfg) of
                  Some e \<Rightarrow> Some e
                | None \<Rightarrow> (case exists_result P b of Inl e \<Rightarrow> Some e | Inr ex \<Rightarrow> None))) of
       Some e \<Rightarrow> if is_Exception e then Inr False else Inl e
     | None \<Rightarrow> Inr (exists_result P b = Inr True))"
  proof (cases "Client_raises P project")
    case (Some e)
    then show ?thesis unfolding run by simp
  next
    case None
    note n1 = this
    show ?thesis
    proof (cases "bucket_raises P c (GCS_BUCKET_NAME cfg)")
      case (Some e)
      then show ?thesis unfolding run using n1 by simp
    next
      case None
      note n2 = this
      show ?thesis
      proof (cases "exists_result P b")
        case (Inl e)
        then show ?thesis unfolding run using n1 n2 by simp
      next
        case (Inr ex)
        then show ?thesis unfolding run using n1 n2 by simp
      qed
    qed
  qed
  then show ?thesis unfolding b_def c_def project_def .
qed

lemma upload_result:
  assumes "bucket w = Some b"
  shows "fst (upload_hero_image P file_data filename content_type w) =
    (case (case uuid4_result P of
             Inl e \<Rightarrow> Some e
           | Inr u \<Rightarrow>
               (case blob_raises P b (object_name_for filename u) of
                  Some e \<Rightarrow> Some e
                | None \<Rightarrow>
                    upload_from_string_raises P (Blob b (object_name_for filename u))
                      file_data content_type)) of
       Some e \<Rightarrow> if is_Exception e then Inr (False, [], []) else Inl e
     | None \<Rightarrow>
         (case uuid4_result P of
            Inl e \<Rightarrow> Inl e
          | Inr u \<Rightarrow>
              Inr (True, object_name_for filename u,
                   public_url (Blob b (object_name_for filename u)))))"
proof (cases "uuid4_result P")
  case (Inl e)
  show ?thesis unfolding upload_run_uuid_raises [OF assms Inl] using Inl by simp
next
  case (Inr u)
  note u = this
  note run = upload_run [OF assms u, of file_data filename content_type, unfolded Let_def]
  show ?thesis
  proof (cases "blob_raises P b (object_name_for filename u)")
    case (Some e)
    then show ?thesis unfolding run using u by simp
  next
    case None
    note n1 = this
    show ?thesis
    proof (cases "upload_from_string_raises P (Blob b (object_name_for filename u))
        file_data content_type")
      case (Some e)
      then show ?thesis unfolding run using u n1 by simp
    next
      case None
      then show ?thesis unfolding run using u n1 by simp
    qed
  qed
qed

lemma delete_result:
  assumes "bucket w = Some b"
  shows "fst (delete_hero_image P object_name w) =
    (case (case blob_raises P b object_name of
             Some e \<Rightarrow> Some e
           | None \<Rightarrow> delete_raises P (Blob b object_name)) of
       Some e \<Rightarrow>
         if is_NotFound e then Inr True else if is_Exception e then Inr False else Inl e
     | None \<Rightarrow> Inr True)"
proof -
  note run = delete_run [OF assms, of P object_name, unfolded Let_def]
  show ?thesis
  proof (cases "blob_raises P b object_name")
    case (Some e)
    then show ?thesis unfolding run by simp
  next
    case None
    note n1 = this
    show ?thesis
    proof (cases "delete_raises P (Blob b object_name)")
      case (Some e)
      then show ?thesis unfolding run using n1 by simp
    next
      case None
      then show ?thesis unfolding run using n1 by simp
    qed
  qed
qed

subsection \<open>A returned success is always as specified\<close>

lemma upload_true_only_as_specified:
  assumes "reachable cfg w"
    and "fst (upload_hero_image P file_data filename content_type w) = Inr (True, n, url)"
  shows "matches_naming_convention n \<and>
         url = ''https://storage.googleapis.com/'' @ GCS_BUCKET_NAME cfg @ ''/'' @ n"
proof -
  obtain b where b: "bucket w = Some b"
    using assms(2) by (cases "bucket w") (simp_all add: upload_hero_image_def py_defs)
  have name: "bucket_name b = GCS_BUCKET_NAME cfg"
    using assms(1) b by (rule reachable_bucket_name)
  obtain u where u: "uuid4_result P = Inr u"
    using assms(2) b
    by (cases "uuid4_result P") (simp_all add: upload_run_uuid_raises split: if_splits)
  have "n = object_name_for filename u \<and> url = public_url (Blob b n)"
    using assms(2) unfolding upload_run [OF b u]
    by (auto simp add: Let_def split: option.splits if_splits)
  then show ?thesis
    using name by (simp add: object_name_for_convention public_url_def)
qed

section \<open>The claims\<close>

text \<open>
  C1. When the module-level \<open>_bucket\<close> is unset, \<open>upload_hero_image\<close> returns
  \<open>(False, "", "")\<close> and \<open>delete_hero_image\<close> returns \<open>False\<close>, for all arguments and
  whatever the SDK would do, and neither makes a call to the SDK: the list of calls is
  the one they found.
\<close>

theorem uninitialised_bucket_fails_immediately:
  assumes "bucket w = None"
  shows "fst (upload_hero_image P file_data filename content_type w) = Inr (False, [], []) \<and>
         sdk_calls (snd (upload_hero_image P file_data filename content_type w)) = sdk_calls w \<and>
         fst (delete_hero_image P object_name w) = Inr False \<and>
         sdk_calls (snd (delete_hero_image P object_name w)) = sdk_calls w"
  using assms by (simp add: upload_hero_image_def delete_hero_image_def py_defs)

theorem uninitialised_bucket_fails_immediately_witness:
  "bucket initial_world = None \<and>
   fst (upload_hero_image quiet_provider [0xFF, 0xD8] ''Photo.PNG'' ''image/png'' initial_world)
     = Inr (False, [], []) \<and>
   sdk_calls (snd (upload_hero_image quiet_provider [0xFF, 0xD8] ''Photo.PNG'' ''image/png''
     initial_world)) = [] \<and>
   fst (delete_hero_image quiet_provider ''hero_images/a.png'' initial_world) = Inr False \<and>
   sdk_calls (snd (delete_hero_image quiet_provider ''hero_images/a.png'' initial_world)) = []"
proof -
  have h: "bucket initial_world = None" by (simp add: initial_world_def)
  have t: "sdk_calls initial_world = []" by (simp add: initial_world_def)
  show ?thesis
    using h uninitialised_bucket_fails_immediately [OF h, of quiet_provider "[0xFF, 0xD8]"
        "''Photo.PNG''" "''image/png''" "''hero_images/a.png''"]
    unfolding t by simp
qed

text \<open>
  C2. For every filename and payload, once the bucket is set and \<open>uuid4\<close> has produced
  its value, the first thing \<open>upload_hero_image\<close> asks of the SDK is a blob whose name
  follows the convention \<open>hero_images/{32-hex-char-random-token}{extension}\<close>: the prefix
  \<open>hero_images/\<close>, then the 32 hexadecimal digits of the UUID, then one of the four
  allowed extensions.
\<close>

theorem upload_object_name_convention:
  assumes "bucket w = Some b" and "uuid4_result P = Inr u"
  shows "\<exists>n rest.
           sdk_calls (snd (upload_hero_image P file_data filename content_type w))
             = sdk_calls w @ Call_blob b n # rest \<and>
           matches_naming_convention n \<and> take 32 (drop 12 n) = hex u"
proof -
  define n where "n = object_name_for filename u"
  have conv: "matches_naming_convention n"
    unfolding n_def by (rule object_name_for_convention)
  have tok: "take 32 (drop 12 n) = hex u"
    by (simp add: n_def object_name_for_def length_hex)
  have "\<exists>rest. sdk_calls (snd (upload_hero_image P file_data filename content_type w))
             = sdk_calls w @ Call_blob b n # rest"
    unfolding upload_run [OF assms] n_def
    by (simp add: Let_def split: option.splits)
  with conv tok show ?thesis by blast
qed

theorem upload_object_name_convention_witness:
  "bucket ready_world = Some example_bucket \<and>
   uuid4_result quiet_provider = Inr 0x3f2b8e1c9a4d4c7ea1b25d6f7e8091a2 \<and>
   (\<exists>n rest.
      sdk_calls (snd (upload_hero_image quiet_provider [0xFF, 0xD8] ''Photo.PNG'' ''image/png''
        ready_world)) = sdk_calls ready_world @ Call_blob example_bucket n # rest \<and>
      matches_naming_convention n \<and>
      take 32 (drop 12 n) = ''3f2b8e1c9a4d4c7ea1b25d6f7e8091a2'')"
proof -
  have u: "uuid4_result quiet_provider = Inr 0x3f2b8e1c9a4d4c7ea1b25d6f7e8091a2"
    by (simp add: quiet_provider_def)
  show ?thesis
    using ready_world_bucket u
      upload_object_name_convention [OF ready_world_bucket u, of "[0xFF, 0xD8]"
        "''Photo.PNG''" "''image/png''"]
    unfolding example_token by simp
qed

text \<open>
  C3. The extension of the filename is what \<open>os.path.splitext\<close> splits off. When it
  equals, case-insensitively, one of \<open>.jpg\<close>, \<open>.jpeg\<close>, \<open>.png\<close>, \<open>.webp\<close>, the generated
  object name ends with that extension in lower case; for any other extension, or none,
  it ends with \<open>.jpg\<close>.
\<close>

theorem upload_extension_choice:
  assumes "bucket w = Some b" and "uuid4_result P = Inr u"
  shows "\<exists>n rest.
           sdk_calls (snd (upload_hero_image P file_data filename content_type w))
             = sdk_calls w @ Call_blob b n # rest \<and>
           (if \<exists>a \<in> set allowed_extensions. same_ignoring_case (snd (splitext filename)) a
            then suffix (lower (snd (splitext filename))) n
            else suffix ''.jpg'' n)"
proof -
  define n where "n = object_name_for filename u"
  have "suffix (normalized_extension filename) n"
    unfolding n_def object_name_for_def suffix_def
    by (rule exI [of _ "''hero_images/'' @ hex u"]) simp
  then have sfx: "if \<exists>a \<in> set allowed_extensions. same_ignoring_case (snd (splitext filename)) a
            then suffix (lower (snd (splitext filename))) n
            else suffix ''.jpg'' n"
    unfolding allowed_ignoring_case normalized_extension_def by (simp split: if_splits)
  have "\<exists>rest. sdk_calls (snd (upload_hero_image P file_data filename content_type w))
             = sdk_calls w @ Call_blob b n # rest"
    unfolding upload_run [OF assms] n_def
    by (simp add: Let_def split: option.splits)
  with sfx show ?thesis by blast
qed

theorem upload_extension_choice_witness:
  "bucket ready_world = Some example_bucket \<and>
   uuid4_result quiet_provider = Inr 0x3f2b8e1c9a4d4c7ea1b25d6f7e8091a2 \<and>
   same_ignoring_case (snd (splitext ''Photo.PNG'')) ''.png'' \<and>
   (\<exists>n rest.
      sdk_calls (snd (upload_hero_image quiet_provider [0xFF, 0xD8] ''Photo.PNG'' ''image/png''
        ready_world)) = sdk_calls ready_world @ Call_blob example_bucket n # rest \<and>
      suffix ''.png'' n)"
proof -
  have u: "uuid4_result quiet_provider = Inr 0x3f2b8e1c9a4d4c7ea1b25d6f7e8091a2"
    by (simp add: quiet_provider_def)
  have s: "same_ignoring_case (snd (splitext ''Photo.PNG'')) ''.png''"
    by (simp add: same_ignoring_case_def example_extension lower_allowed_extensions)
  have a: "\<exists>a \<in> set allowed_extensions. same_ignoring_case (snd (splitext ''Photo.PNG'')) a"
    unfolding allowed_ignoring_case example_extension by (simp add: allowed_extensions_def)
  show ?thesis
    using ready_world_bucket u s
      upload_extension_choice [OF ready_world_bucket u, where filename = "''Photo.PNG''"
        and file_data = "[0xFF, 0xD8]" and content_type = "''image/png''"]
    unfolding if_P [OF a] example_extension by simp
qed

text \<open>
  C4. In a world the module can reach, with the bucket set: when neither
  \<open>bucket.blob\<close> nor \<open>blob.upload_from_string\<close> raises for the generated name,
  \<open>upload_hero_image\<close> returns \<open>True\<close>, the generated name, which follows the naming
  convention, and the URL \<open>https://storage.googleapis.com/{bucket}/{objectName}\<close> with the
  configured bucket name and that same name.
\<close>

theorem upload_success_result:
  fixes filename :: string and u :: "128 word"
  defines "e \<equiv> lower (snd (splitext filename))"
  defines "n \<equiv> ''hero_images/'' @ hex u @
                 (if e \<in> set [''.jpg'', ''.jpeg'', ''.png'', ''.webp''] then e else ''.jpg'')"
  assumes "reachable cfg w" and "bucket w = Some b" and "uuid4_result P = Inr u"
    and "blob_raises P b n = None"
    and "upload_from_string_raises P (Blob b n) file_data content_type = None"
  shows "fst (upload_hero_image P file_data filename content_type w)
           = Inr (True, n, ''https://storage.googleapis.com/'' @ GCS_BUCKET_NAME cfg @ ''/'' @ n) \<and>
         matches_naming_convention n"
proof -
  have n: "n = object_name_for filename u"
    unfolding n_def e_def object_name_for_def normalized_extension_def allowed_extensions_def
    by (rule refl)
  have name: "bucket_name b = GCS_BUCKET_NAME cfg"
    using assms(3,4) by (rule reachable_bucket_name)
  have conv: "matches_naming_convention n"
    unfolding n by (rule object_name_for_convention)
  have "fst (upload_hero_image P file_data filename content_type w)
           = Inr (True, n, ''https://storage.googleapis.com/'' @ GCS_BUCKET_NAME cfg @ ''/'' @ n)"
    unfolding upload_run [OF assms(4,5)]
    using assms(6,7) name unfolding n
    by (simp add: Let_def public_url_def)
  with conv show ?thesis by simp
qed

theorem upload_success_result_witness:
  "reachable example_config ready_world \<and>
   bucket ready_world = Some example_bucket \<and>
   fst (upload_hero_image quiet_provider [0xFF, 0xD8] ''Photo.PNG'' ''image/png'' ready_world)
     = Inr (True, ''hero_images/3f2b8e1c9a4d4c7ea1b25d6f7e8091a2.png'',
            ''https://storage.googleapis.com/my-bucket/hero_images/3f2b8e1c9a4d4c7ea1b25d6f7e8091a2.png'') \<and>
   matches_naming_convention ''hero_images/3f2b8e1c9a4d4c7ea1b25d6f7e8091a2.png''"
proof -
  have u: "uuid4_result quiet_provider = Inr 0x3f2b8e1c9a4d4c7ea1b25d6f7e8091a2"
    by (simp add: quiet_provider_def)
  have br: "blob_raises quiet_provider example_bucket n = None" for n
    by (simp add: quiet_provider_def)
  have ur: "upload_from_string_raises quiet_provider bl [0xFF, 0xD8] ''image/png'' = None" for bl
    by (simp add: quiet_provider_def)
  have g: "GCS_BUCKET_NAME example_config = ''my-bucket''"
    by (simp add: example_config_def)
  show ?thesis
    using ready_world_reachable ready_world_bucket
      upload_success_result [OF ready_world_reachable ready_world_bucket u br ur,
        where filename = "''Photo.PNG''"]
    unfolding example_extension example_token g by simp
qed



text \<open>
  C6. When \<open>GCS_BUCKET_NAME\<close> is the empty string, \<open>init_gcs_client\<close> returns \<open>False\<close>,
  makes no call to the SDK (no client is constructed, nothing is sent), and leaves
  \<open>_storage_client\<close> and \<open>_bucket\<close> as they were.
\<close>

theorem init_empty_bucket_name:
  assumes "GCS_BUCKET_NAME cfg = []"
  shows "fst (init_gcs_client cfg P w) = Inr False \<and>
         sdk_calls (snd (init_gcs_client cfg P w)) = sdk_calls w \<and>
         storage_client (snd (init_gcs_client cfg P w)) = storage_client w \<and>
         bucket (snd (init_gcs_client cfg P w)) = bucket w"
  using assms by (simp add: init_gcs_client_def py_defs)

theorem init_empty_bucket_name_witness:
  "GCS_BUCKET_NAME unconfigured = [] \<and>
   fst (init_gcs_client unconfigured quiet_provider initial_world) = Inr False \<and>
   sdk_calls (snd (init_gcs_client unconfigured quiet_provider initial_world)) = [] \<and>
   storage_client (snd (init_gcs_client unconfigured quiet_provider initial_world)) = None \<and>
   bucket (snd (init_gcs_client unconfigured quiet_provider initial_world)) = None"
proof -
  have h: "GCS_BUCKET_NAME unconfigured = []" by (simp add: unconfigured_def)
  show ?thesis
    using h init_empty_bucket_name [OF h, of quiet_provider initial_world]
    by (simp add: initial_world_def)
qed

text \<open>
  C7. In every world, \<open>get_public_url\<close> returns exactly
  \<open>"https://storage.googleapis.com/" + bucketName + "/" + objectName\<close> and leaves the
  world as it found it: it makes no SDK call and reads neither handle. With the bucket
  \<open>my-bucket\<close> and the object \<open>hero_images/abc.jpg\<close> the result is
  \<open>https://storage.googleapis.com/my-bucket/hero_images/abc.jpg\<close>.
\<close>

theorem get_public_url_format:
  "get_public_url cfg object_name w =
     (Inr (''https://storage.googleapis.com/'' @ GCS_BUCKET_NAME cfg @ ''/'' @ object_name), w) \<and>
   get_public_url \<lparr>GCS_BUCKET_NAME = ''my-bucket'', GCS_PROJECT_ID = project\<rparr>
       ''hero_images/abc.jpg'' w =
     (Inr ''https://storage.googleapis.com/my-bucket/hero_images/abc.jpg'', w)"
  by (simp add: get_public_url_def py_return_def)

theorem get_public_url_format_witness:
  "get_public_url example_config ''hero_images/abc.jpg'' initial_world =
     (Inr ''https://storage.googleapis.com/my-bucket/hero_images/abc.jpg'', initial_world)"
  using get_public_url_format [of example_config "''hero_images/abc.jpg''" initial_world]
  by (simp add: example_config_def)

text \<open>
  C8. For every input and every behaviour of the SDK, no instance of \<open>Exception\<close>
  leaves \<open>init_gcs_client\<close>, \<open>upload_hero_image\<close> or \<open>delete_hero_image\<close>: whatever leaves
  one of them is outside the \<open>Exception\<close> hierarchy. When the first call that raises
  raises an instance of \<open>Exception\<close>, \<open>init_gcs_client\<close> returns \<open>False\<close> and
  \<open>upload_hero_image\<close> returns \<open>(False, "", "")\<close>; \<open>delete_hero_image\<close> returns \<open>False\<close>,
  except that it returns \<open>True\<close> when the exception is \<open>NotFound\<close>. When it raises an
  exception outside \<open>Exception\<close> (\<open>KeyboardInterrupt\<close>, \<open>SystemExit\<close>), no handler matches
  and that exception leaves the operation. When no call raises, each operation returns
  a value. The two departures from the failure value, \<open>NotFound\<close> and the escaping
  exception, are shown at concrete inputs after the theorem.
\<close>

theorem exceptions_become_return_values:
  fixes cfg :: config and P :: provider and w :: world and b :: bucket
    and file_data :: bytes and filename content_type object_name :: string
  defines "project \<equiv> (if GCS_PROJECT_ID cfg \<noteq> [] then Some (GCS_PROJECT_ID cfg) else None)"
  defines "c \<equiv> Client project"
  defines "bk \<equiv> Bucket c (GCS_BUCKET_NAME cfg)"
  defines "raised_init \<equiv>
    (case Client_raises P project of
       Some e \<Rightarrow> Some e
     | None \<Rightarrow>
         (case bucket_raises P c (GCS_BUCKET_NAME cfg) of
            Some e \<Rightarrow> Some e
          | None \<Rightarrow> (case exists_result P bk of Inl e \<Rightarrow> Some e | Inr ex \<Rightarrow> None)))"
  defines "raised_upload \<equiv>
    (case uuid4_result P of
       Inl e \<Rightarrow> Some e
     | Inr u \<Rightarrow>
         (case blob_raises P b (object_name_for filename u) of
            Some e \<Rightarrow> Some e
          | None \<Rightarrow>
              upload_from_string_raises P (Blob b (object_name_for filename u))
                file_data content_type))"
  defines "raised_delete \<equiv>
    (case blob_raises P b object_name of
       Some e \<Rightarrow> Some e
     | None \<Rightarrow> delete_raises P (Blob b object_name))"
  shows "(\<forall>e. fst (init_gcs_client cfg P w) = Inl e \<longrightarrow> \<not> is_Exception e) \<and>
         (\<forall>e. fst (upload_hero_image P file_data filename content_type w) = Inl e
            \<longrightarrow> \<not> is_Exception e) \<and>
         (\<forall>e. fst (delete_hero_image P object_name w) = Inl e \<longrightarrow> \<not> is_Exception e) \<and>
         (\<forall>e. GCS_BUCKET_NAME cfg \<noteq> [] \<and> raised_init = Some e \<longrightarrow>
            fst (init_gcs_client cfg P w) = (if is_Exception e then Inr False else Inl e)) \<and>
         (\<forall>e. bucket w = Some b \<and> raised_upload = Some e \<longrightarrow>
            fst (upload_hero_image P file_data filename content_type w) =
              (if is_Exception e then Inr (False, [], []) else Inl e)) \<and>
         (\<forall>e. bucket w = Some b \<and> raised_delete = Some e \<longrightarrow>
            fst (delete_hero_image P object_name w) =
              (if is_NotFound e then Inr True
               else if is_Exception e then Inr False else Inl e)) \<and>
         (GCS_BUCKET_NAME cfg = [] \<or> raised_init = None \<longrightarrow>
            (\<exists>r. fst (init_gcs_client cfg P w) = Inr r)) \<and>
         (bucket w = None \<or> bucket w = Some b \<and> raised_upload = None \<longrightarrow>
            (\<exists>r. fst (upload_hero_image P file_data filename content_type w) = Inr r)) \<and>
         (bucket w = None \<or> bucket w = Some b \<and> raised_delete = None \<longrightarrow>
            (\<exists>r. fst (delete_hero_image P object_name w) = Inr r))"
proof -
  have init_eq: "fst (init_gcs_client cfg P w) =
      (case raised_init of
         Some e \<Rightarrow> if is_Exception e then Inr False else Inl e
       | None \<Rightarrow> Inr (exists_result P bk = Inr True))"
    if "GCS_BUCKET_NAME cfg \<noteq> []"
    unfolding raised_init_def bk_def c_def project_def by (rule init_result [OF that])
  have init_empty: "fst (init_gcs_client cfg P w) = Inr False" if "GCS_BUCKET_NAME cfg = []"
    using that by (simp add: init_gcs_client_def py_defs)
  have upload_eq: "fst (upload_hero_image P file_data filename content_type w) =
      (case raised_upload of
         Some e \<Rightarrow> if is_Exception e then Inr (False, [], []) else Inl e
       | None \<Rightarrow>
           (case uuid4_result P of
              Inl e \<Rightarrow> Inl e
            | Inr u \<Rightarrow>
                Inr (True, object_name_for filename u,
                     public_url (Blob b (object_name_for filename u)))))"
    if "bucket w = Some b"
    unfolding raised_upload_def by (rule upload_result [OF that])
  have upload_unset: "fst (upload_hero_image P file_data filename content_type w)
      = Inr (False, [], [])" if "bucket w = None"
    using that by (simp add: upload_hero_image_def py_defs)
  have delete_eq: "fst (delete_hero_image P object_name w) =
      (case raised_delete of
         Some e \<Rightarrow>
           if is_NotFound e then Inr True else if is_Exception e then Inr False else Inl e
       | None \<Rightarrow> Inr True)"
    if "bucket w = Some b"
    unfolding raised_delete_def by (rule delete_result [OF that])
  have delete_unset: "fst (delete_hero_image P object_name w) = Inr False" if "bucket w = None"
    using that by (simp add: delete_hero_image_def py_defs)
  have init_escape: "\<forall>e. fst (init_gcs_client cfg P w) = Inl e \<longrightarrow> \<not> is_Exception e"
  proof (cases "GCS_BUCKET_NAME cfg = []")
    case True
    show ?thesis unfolding init_empty [OF True] by simp
  next
    case False
    show ?thesis unfolding init_result [OF False]
      by (cases rule: option.exhaust) (simp_all split: option.splits if_splits)
  qed
  have upload_escape:
    "\<forall>e. fst (upload_hero_image P file_data filename content_type w) = Inl e
       \<longrightarrow> \<not> is_Exception e"
  proof (cases "bucket w")
    case None
    show ?thesis unfolding upload_unset [OF None] by simp
  next
    case (Some b')
    show ?thesis unfolding upload_result [OF Some]
      by (simp split: option.splits sum.splits if_splits)
  qed
  have delete_escape:
    "\<forall>e. fst (delete_hero_image P object_name w) = Inl e \<longrightarrow> \<not> is_Exception e"
  proof (cases "bucket w")
    case None
    show ?thesis unfolding delete_unset [OF None] by simp
  next
    case (Some b')
    show ?thesis unfolding delete_result [OF Some]
      by (simp split: option.splits if_splits)
  qed
  have init_value: "\<forall>e. GCS_BUCKET_NAME cfg \<noteq> [] \<and> raised_init = Some e \<longrightarrow>
      fst (init_gcs_client cfg P w) = (if is_Exception e then Inr False else Inl e)"
    by (simp add: init_eq)
  have upload_value: "\<forall>e. bucket w = Some b \<and> raised_upload = Some e \<longrightarrow>
      fst (upload_hero_image P file_data filename content_type w) =
        (if is_Exception e then Inr (False, [], []) else Inl e)"
    by (simp add: upload_eq)
  have delete_value: "\<forall>e. bucket w = Some b \<and> raised_delete = Some e \<longrightarrow>
      fst (delete_hero_image P object_name w) =
        (if is_NotFound e then Inr True else if is_Exception e then Inr False else Inl e)"
    by (simp add: delete_eq)
  have init_quiet: "GCS_BUCKET_NAME cfg = [] \<or> raised_init = None \<longrightarrow>
      (\<exists>r. fst (init_gcs_client cfg P w) = Inr r)"
  proof (cases "GCS_BUCKET_NAME cfg = []")
    case True
    show ?thesis unfolding ex_Inr_iff init_empty [OF True] by simp
  next
    case False
    show ?thesis unfolding ex_Inr_iff init_eq [OF False] using False by simp
  qed
  have upload_quiet: "bucket w = None \<or> bucket w = Some b \<and> raised_upload = None \<longrightarrow>
      (\<exists>r. fst (upload_hero_image P file_data filename content_type w) = Inr r)"
  proof (intro impI, elim disjE conjE)
    assume "bucket w = None"
    then show "\<exists>r. fst (upload_hero_image P file_data filename content_type w) = Inr r"
      unfolding ex_Inr_iff by (simp add: upload_unset)
  next
    assume bw: "bucket w = Some b" and r: "raised_upload = None"
    from r obtain u where u: "uuid4_result P = Inr u"
      unfolding raised_upload_def by (cases "uuid4_result P") simp_all
    show "\<exists>r. fst (upload_hero_image P file_data filename content_type w) = Inr r"
      unfolding ex_Inr_iff upload_eq [OF bw] using r u by simp
  qed
  have delete_quiet: "bucket w = None \<or> bucket w = Some b \<and> raised_delete = None \<longrightarrow>
      (\<exists>r. fst (delete_hero_image P object_name w) = Inr r)"
  proof (intro impI, elim disjE conjE)
    assume "bucket w = None"
    then show "\<exists>r. fst (delete_hero_image P object_name w) = Inr r"
      unfolding ex_Inr_iff by (simp add: delete_unset)
  next
    assume bw: "bucket w = Some b" and r: "raised_delete = None"
    show "\<exists>r. fst (delete_hero_image P object_name w) = Inr r"
      unfolding ex_Inr_iff delete_eq [OF bw] using r by simp
  qed
  from init_escape upload_escape delete_escape init_value upload_value delete_value
    init_quiet upload_quiet delete_quiet
  show ?thesis by (intro conjI)
qed

theorem exceptions_become_return_values_witness:
  "fst (init_gcs_client example_config failing_provider initial_world) = Inr False \<and>
   fst (upload_hero_image failing_provider [0xFF, 0xD8] ''Photo.PNG'' ''image/png'' ready_world)
     = Inr (False, [], []) \<and>
   fst (delete_hero_image failing_provider ''hero_images/a.png'' ready_world) = Inr False \<and>
   fst (delete_hero_image not_found_provider ''hero_images/a.png'' ready_world) = Inr True \<and>
   fst (delete_hero_image interrupted_provider ''hero_images/a.png'' ready_world)
     = Inl (NonException ''KeyboardInterrupt'')"
proof -
  have p: "GCS_PROJECT_ID example_config = []"
    by (simp add: example_config_def)
  note t1 = exceptions_become_return_values [where P = failing_provider and cfg = example_config
      and w = initial_world and b = example_bucket and file_data = "[0xFF, 0xD8]"
      and filename = "''Photo.PNG''" and content_type = "''image/png''"
      and object_name = "''hero_images/a.png''"]
  note t2 = exceptions_become_return_values [where P = failing_provider and cfg = example_config
      and w = ready_world and b = example_bucket and file_data = "[0xFF, 0xD8]"
      and filename = "''Photo.PNG''" and content_type = "''image/png''"
      and object_name = "''hero_images/a.png''"]
  note t3 = exceptions_become_return_values [where P = not_found_provider and cfg = example_config
      and w = ready_world and b = example_bucket and file_data = "[0xFF, 0xD8]"
      and filename = "''Photo.PNG''" and content_type = "''image/png''"
      and object_name = "''hero_images/a.png''"]
  note t4 = exceptions_become_return_values [where P = interrupted_provider
      and cfg = example_config
      and w = ready_world and b = example_bucket and file_data = "[0xFF, 0xD8]"
      and filename = "''Photo.PNG''" and content_type = "''image/png''"
      and object_name = "''hero_images/a.png''"]
  have a: "fst (init_gcs_client example_config failing_provider initial_world) = Inr False"
    using t1 example_config_named p by (simp add: failing_provider_def)
  have b: "fst (upload_hero_image failing_provider [0xFF, 0xD8] ''Photo.PNG'' ''image/png''
      ready_world) = Inr (False, [], [])"
    using t2 ready_world_bucket by (simp add: failing_provider_def)
  have c: "fst (delete_hero_image failing_provider ''hero_images/a.png'' ready_world) = Inr False"
    using t2 ready_world_bucket by (simp add: failing_provider_def)
  have d: "fst (delete_hero_image not_found_provider ''hero_images/a.png'' ready_world) = Inr True"
    using t3 ready_world_bucket by (simp add: not_found_provider_def quiet_provider_def)
  have e: "fst (delete_hero_image interrupted_provider ''hero_images/a.png'' ready_world)
      = Inl (NonException ''KeyboardInterrupt'')"
    using t4 ready_world_bucket by (simp add: interrupted_provider_def)
  from a b c d e show ?thesis by simp
qed

theorem exceptions_claim_counterexample:
  "bucket ready_world = Some example_bucket \<and>
   delete_raises not_found_provider (Blob example_bucket ''hero_images/a.png'')
     = Some (NotFound ''404 No such object'') \<and>
   fst (delete_hero_image not_found_provider ''hero_images/a.png'' ready_world) = Inr True \<and>
   fst (delete_hero_image not_found_provider ''hero_images/a.png'' ready_world) \<noteq> Inr False \<and>
   delete_raises interrupted_provider (Blob example_bucket ''hero_images/a.png'')
     = Some (NonException ''KeyboardInterrupt'') \<and>
   fst (delete_hero_image interrupted_provider ''hero_images/a.png'' ready_world)
     = Inl (NonException ''KeyboardInterrupt'') \<and>
   Client_raises interrupted_provider None = Some (NonException ''KeyboardInterrupt'') \<and>
   fst (init_gcs_client example_config interrupted_provider initial_world)
     = Inl (NonException ''KeyboardInterrupt'') \<and>
   fst (upload_hero_image interrupted_provider [0xFF, 0xD8] ''Photo.PNG'' ''image/png''
     ready_world) = Inl (NonException ''KeyboardInterrupt'')"
proof -
  have u: "uuid4_result interrupted_provider = Inr 0x3f2b8e1c9a4d4c7ea1b25d6f7e8091a2"
    by (simp add: interrupted_provider_def)
  have d1: "fst (delete_hero_image not_found_provider ''hero_images/a.png'' ready_world) = Inr True"
    unfolding delete_run [OF ready_world_bucket]
    by (simp add: not_found_provider_def quiet_provider_def)
  have d2: "fst (delete_hero_image interrupted_provider ''hero_images/a.png'' ready_world)
      = Inl (NonException ''KeyboardInterrupt'')"
    unfolding delete_run [OF ready_world_bucket]
    by (simp add: interrupted_provider_def)
  have i: "fst (init_gcs_client example_config interrupted_provider initial_world)
      = Inl (NonException ''KeyboardInterrupt'')"
    unfolding init_run [OF example_config_named]
    by (simp add: interrupted_provider_def example_config_def Let_def)
  have up: "fst (upload_hero_image interrupted_provider [0xFF, 0xD8] ''Photo.PNG'' ''image/png''
      ready_world) = Inl (NonException ''KeyboardInterrupt'')"
    unfolding upload_run [OF ready_world_bucket u]
    by (simp add: interrupted_provider_def Let_def)
  from d1 d2 i up ready_world_bucket show ?thesis
    by (simp add: not_found_provider_def quiet_provider_def interrupted_provider_def)
qed

text \<open>
  C9. When \<open>init_gcs_client\<close> returns \<open>False\<close> because \<open>exists()\<close> answered \<open>False\<close>
  without raising, both handles have been stored. A following \<open>delete_hero_image\<close> or
  \<open>upload_hero_image\<close> therefore passes its check of \<open>_bucket\<close> and calls the SDK: it
  asks for the blob and, unless that raises, deletes or uploads it.
\<close>

theorem init_false_leaves_handles_set:
  fixes cfg :: config and P :: provider and w :: world
  defines "c \<equiv> Client (if GCS_PROJECT_ID cfg \<noteq> [] then Some (GCS_PROJECT_ID cfg) else None)"
  defines "b \<equiv> Bucket c (GCS_BUCKET_NAME cfg)"
  defines "w' \<equiv> snd (init_gcs_client cfg P w)"
  assumes "GCS_BUCKET_NAME cfg \<noteq> []"
    and "Client_raises P (client_project c) = None"
    and "bucket_raises P c (GCS_BUCKET_NAME cfg) = None"
    and "exists_result P b = Inr False"
  shows "fst (init_gcs_client cfg P w) = Inr False \<and>
         storage_client w' = Some c \<and> bucket w' = Some b \<and>
         (\<forall>P' object_name.
            sdk_calls (snd (delete_hero_image P' object_name w')) =
              sdk_calls w' @ Call_blob b object_name #
                (if blob_raises P' b object_name = None
                 then [Call_delete (Blob b object_name)] else [])) \<and>
         (\<forall>P' file_data filename content_type u. uuid4_result P' = Inr u \<longrightarrow>
            (\<exists>n. sdk_calls (snd (upload_hero_image P' file_data filename content_type w')) =
              sdk_calls w' @ Call_blob b n #
                (if blob_raises P' b n = None
                 then [Call_upload_from_string (Blob b n) file_data content_type] else [])))"
proof -
  have run: "init_gcs_client cfg P w =
      (Inr False,
       w\<lparr>storage_client := Some c, bucket := Some b,
         sdk_calls := sdk_calls w @
           [Call_Client (client_project c), Call_bucket c (GCS_BUCKET_NAME cfg), Call_exists b],
         log_lines := log_lines w @
           [(ERROR, ''GCS bucket '' @ [CHR 0x27] @ GCS_BUCKET_NAME cfg @ [CHR 0x27]
                      @ '' does not exist'')]\<rparr>)"
    unfolding init_run [OF assms(4)] using assms(5-7) unfolding c_def b_def
    by (simp add: Let_def)
  have r: "fst (init_gcs_client cfg P w) = Inr False"
    and sc: "storage_client w' = Some c" and bw: "bucket w' = Some b"
    unfolding w'_def run by simp_all
  have del: "\<forall>P' object_name.
            sdk_calls (snd (delete_hero_image P' object_name w')) =
              sdk_calls w' @ Call_blob b object_name #
                (if blob_raises P' b object_name = None
                 then [Call_delete (Blob b object_name)] else [])"
    unfolding delete_run [OF bw] by (simp add: Let_def split: option.splits)
  have upl: "\<forall>P' file_data filename content_type u. uuid4_result P' = Inr u \<longrightarrow>
            (\<exists>n. sdk_calls (snd (upload_hero_image P' file_data filename content_type w')) =
              sdk_calls w' @ Call_blob b n #
                (if blob_raises P' b n = None
                 then [Call_upload_from_string (Blob b n) file_data content_type] else []))"
  proof (intro allI impI)
    fix P' :: provider and file_data :: bytes and filename content_type :: string
      and u :: "128 word"
    assume u: "uuid4_result P' = Inr u"
    show "\<exists>n. sdk_calls (snd (upload_hero_image P' file_data filename content_type w')) =
              sdk_calls w' @ Call_blob b n #
                (if blob_raises P' b n = None
                 then [Call_upload_from_string (Blob b n) file_data content_type] else [])"
      unfolding upload_run [OF bw u]
      by (rule exI [of _ "object_name_for filename u"])
         (simp add: Let_def split: option.splits)
  qed
  from r sc bw del upl show ?thesis by (intro conjI)
qed

theorem init_false_leaves_handles_set_witness:
  "fst (init_gcs_client example_config absent_bucket_provider initial_world) = Inr False \<and>
   storage_client (snd (init_gcs_client example_config absent_bucket_provider initial_world))
     = Some (Client None) \<and>
   bucket (snd (init_gcs_client example_config absent_bucket_provider initial_world))
     = Some example_bucket \<and>
   sdk_calls (snd (delete_hero_image quiet_provider ''hero_images/a.png''
       (snd (init_gcs_client example_config absent_bucket_provider initial_world)))) =
     [Call_Client None, Call_bucket (Client None) ''my-bucket'', Call_exists example_bucket,
      Call_blob example_bucket ''hero_images/a.png'',
      Call_delete (Blob example_bucket ''hero_images/a.png'')]"
proof -
  have p: "GCS_PROJECT_ID example_config = []" and g: "GCS_BUCKET_NAME example_config = ''my-bucket''"
    by (simp_all add: example_config_def)
  have h1: "Client_raises absent_bucket_provider pr = None" for pr
    by (simp add: absent_bucket_provider_def quiet_provider_def)
  have h2: "bucket_raises absent_bucket_provider c n = None" for c n
    by (simp add: absent_bucket_provider_def quiet_provider_def)
  have h3: "exists_result absent_bucket_provider b = Inr False" for b
    by (simp add: absent_bucket_provider_def quiet_provider_def)
  have q: "blob_raises quiet_provider b n = None" for b n
    by (simp add: quiet_provider_def)
  have calls: "sdk_calls (snd (init_gcs_client example_config absent_bucket_provider
      initial_world)) =
      [Call_Client None, Call_bucket (Client None) ''my-bucket'', Call_exists example_bucket]"
    unfolding init_run [OF example_config_named]
    by (simp add: Let_def p g h1 h2 h3 initial_world_def example_bucket_def)
  show ?thesis
    using init_false_leaves_handles_set [OF example_config_named h1 h2 h3,
        where w = initial_world]
    unfolding calls p by (simp add: g q example_bucket_def)
qed

text \<open>
  C10. \<open>upload_hero_image\<close> and \<open>delete_hero_image\<close> leave \<open>_storage_client\<close> and
  \<open>_bucket\<close> as they found them, whether they succeed or fail; so do the three
  accessors. Only \<open>init_gcs_client\<close> assigns the two variables.
\<close>

theorem upload_delete_leave_handles:
  "storage_client (snd (upload_hero_image P file_data filename content_type w)) = storage_client w \<and>
   bucket (snd (upload_hero_image P file_data filename content_type w)) = bucket w \<and>
   storage_client (snd (delete_hero_image P object_name w)) = storage_client w \<and>
   bucket (snd (delete_hero_image P object_name w)) = bucket w \<and>
   snd (get_public_url cfg object_name w) = w \<and>
   snd (get_gcs_client w) = w \<and> snd (get_bucket w) = w"
  using upload_frame [of P file_data filename content_type w] delete_frame [of P object_name w]
  by (simp add: get_public_url_def get_gcs_client_def get_bucket_def py_defs)

theorem upload_delete_leave_handles_witness:
  "storage_client (snd (upload_hero_image quiet_provider [0xFF, 0xD8] ''Photo.PNG'' ''image/png''
     ready_world)) = Some (Client None) \<and>
   bucket (snd (upload_hero_image quiet_provider [0xFF, 0xD8] ''Photo.PNG'' ''image/png''
     ready_world)) = Some example_bucket \<and>
   storage_client (snd (delete_hero_image not_found_provider ''hero_images/a.png'' ready_world))
     = Some (Client None) \<and>
   bucket (snd (delete_hero_image not_found_provider ''hero_images/a.png'' ready_world))
     = Some example_bucket"
proof -
  have c: "storage_client ready_world = Some (Client None)"
    unfolding ready_world_def init_run [OF example_config_named]
    by (simp add: example_config_def quiet_provider_def Let_def)
  show ?thesis
    using upload_delete_leave_handles [where P = quiet_provider and file_data = "[0xFF, 0xD8]"
        and filename = "''Photo.PNG''" and content_type = "''image/png''" and w = ready_world]
      upload_delete_leave_handles [where P = not_found_provider and w = ready_world
        and object_name = "''hero_images/a.png''"]
    unfolding c ready_world_bucket by simp
qed

end
